theory Spec2Isabelle
  imports Main "HOL-Library.Word"
begin

section \<open>Python values and library functions used by the module\<close>

text \<open>
  The module \<^verbatim>\<open>nltk/tokenize/stanford_segmenter.py\<close> is a thin adapter around an external
  Java program. Exceptions are values of the type \<open>error\<close>; a call that can raise returns
  \<open>error + 'a\<close> with \<open>Inl\<close> for the exception. Python text is a \<open>string\<close>, binary data is
  a list of bytes. \<open>Unmodelled\<close> is not a Python exception: it marks the part of a library
  function that the embedding leaves out.
\<close>

datatype error =
    is_LookupError: LookupError string
  | ValueError string
  | TypeError string
  | OSError string
  | UnicodeError string
  | Unmodelled string

type_synonym bytes = "8 word list"

text \<open>\<^verbatim>\<open>sep.join(xs)\<close> of Python's \<^verbatim>\<open>str\<close>.\<close>

fun py_join :: "'a list \<Rightarrow> 'a list list \<Rightarrow> 'a list" where
  "py_join sep [] = []"
| "py_join sep [x] = x"
| "py_join sep (x # y # ys) = x @ sep @ py_join sep (y # ys)"

text \<open>Decimal and hexadecimal numerals, as \<^verbatim>\<open>str(n)\<close> and \<^verbatim>\<open>'%x' % n\<close> print them.\<close>

definition digit_char :: "nat \<Rightarrow> char" where
  "digit_char n = ''0123456789abcdef'' ! n"

fun str_nat :: "nat \<Rightarrow> string" where
  "str_nat n = (if n < 10 then [digit_char n] else str_nat (n div 10) @ [digit_char (n mod 10)])"

fun hex_nat :: "nat \<Rightarrow> string" where
  "hex_nat n = (if n < 16 then [digit_char n] else hex_nat (n div 16) @ [digit_char (n mod 16)])"

declare str_nat.simps [simp del] hex_nat.simps [simp del]

definition str_int :: "int \<Rightarrow> string" where
  "str_int i = (if i < 0 then ''-'' @ str_nat (nat (- i)) else str_nat (nat i))"

text \<open>
  \<^verbatim>\<open>fmt % arg\<close> for one string argument. The conversions \<^verbatim>\<open>%s\<close> and \<^verbatim>\<open>%%\<close> are performed;
  a \<^verbatim>\<open>%\<close> at the end of the format is Python's \<^verbatim>\<open>ValueError: incomplete format\<close>; a \<^verbatim>\<open>%\<close>
  followed by a character outside Python's conversion syntax is
  \<^verbatim>\<open>ValueError: unsupported format character\<close>, with the character, its code and its index.
  The other characters of the conversion syntax (mapping keys, flags, width, precision,
  length modifiers and the conversion types other than \<^verbatim>\<open>s\<close>) occur in no format string of
  the module and are left out.
\<close>

definition conversion_syntax :: "char list" where
  "conversion_syntax = ''(#0- +*.123456789hlLdiouxXeEfFgGcra''"

definition unsupported_format_character :: "char \<Rightarrow> nat \<Rightarrow> error" where
  "unsupported_format_character c i =
     ValueError (''unsupported format character '' @ [CHR 0x27, c, CHR 0x27] @ '' (0x''
       @ hex_nat (of_char c) @ '') at index '' @ str_nat i)"

definition emit :: "string \<Rightarrow> error + string \<Rightarrow> error + string" where
  "emit pre r = (case r of Inl e \<Rightarrow> Inl e | Inr s \<Rightarrow> Inr (pre @ s))"

fun py_format_at :: "nat \<Rightarrow> string \<Rightarrow> string \<Rightarrow> bool \<Rightarrow> error + string" where
  "py_format_at i [] arg used =
     (if used then Inr []
      else Inl (TypeError ''not all arguments converted during string formatting''))"
| "py_format_at i (c # cs) arg used =
     (if c \<noteq> CHR ''%'' then emit [c] (py_format_at (i + 1) cs arg used)
      else case cs of
        [] \<Rightarrow> Inl (ValueError ''incomplete format'')
      | d # ds \<Rightarrow>
          if d = CHR ''%'' then emit ''%'' (py_format_at (i + 2) ds arg used)
          else if d = CHR ''s'' then
            (if used then Inl (TypeError ''not enough arguments for format string'')
             else emit arg (py_format_at (i + 2) ds arg True))
          else if d \<in> set conversion_syntax then Inl (Unmodelled ''conversion'')
          else Inl (unsupported_format_character d (i + 1)))"

definition py_format :: "string \<Rightarrow> string \<Rightarrow> error + string" where
  "py_format fmt arg = py_format_at 0 fmt arg False"

text \<open>
  The exception that \<^verbatim>\<open>raise LookupError(fmt % arg)\<close> raises: the argument of
  \<^verbatim>\<open>LookupError\<close> is evaluated first, and an exception of the formatting is the one raised.
\<close>

definition raise_LookupError :: "string \<Rightarrow> string \<Rightarrow> error" where
  "raise_LookupError fmt arg =
     (case py_format fmt arg of Inl e \<Rightarrow> e | Inr msg \<Rightarrow> LookupError msg)"

text \<open>\<^verbatim>\<open>os.path.join(a, b)\<close> and \<^verbatim>\<open>os.pathsep\<close> on a POSIX platform.\<close>

definition os_path_join :: "string \<Rightarrow> string \<Rightarrow> string" where
  "os_path_join a b =
     (if b \<noteq> [] \<and> hd b = CHR ''/'' then b
      else if a = [] \<or> last a = CHR ''/'' then a @ b
      else a @ ''/'' @ b)"

definition os_pathsep :: string where
  "os_pathsep = '':''"

text \<open>
  \<^verbatim>\<open>json.dumps(val)\<close> with its default arguments, for the values \<^verbatim>\<open>None\<close>, booleans,
  integers and strings. A string is quoted; the quote and the backslash are escaped with a
  backslash, backspace, form feed, newline, carriage return and tab have their short
  escapes, and every other character outside \<^verbatim>\<open>0x20..0x7e\<close> becomes \<^verbatim>\<open>\uXXXX\<close>.
\<close>

datatype json = JNull | JBool bool | JInt int | JStr string

definition hex4 :: "nat \<Rightarrow> string" where
  "hex4 n = [digit_char (n div 4096 mod 16), digit_char (n div 256 mod 16),
             digit_char (n div 16 mod 16), digit_char (n mod 16)]"

definition json_escape_char :: "char \<Rightarrow> string" where
  "json_escape_char c =
     (if c = CHR 0x22 then [CHR 0x5C, CHR 0x22]
      else if c = CHR 0x5C then [CHR 0x5C, CHR 0x5C]
      else if c = CHR 0x0A then [CHR 0x5C, CHR ''n'']
      else if c = CHR 0x0D then [CHR 0x5C, CHR ''r'']
      else if c = CHR 0x09 then [CHR 0x5C, CHR ''t'']
      else if c = CHR 0x08 then [CHR 0x5C, CHR ''b'']
      else if c = CHR 0x0C then [CHR 0x5C, CHR ''f'']
      else if (of_char c :: nat) < 32 \<or> 126 < (of_char c :: nat)
        then [CHR 0x5C, CHR ''u''] @ hex4 (of_char c)
      else [c])"

fun json_dumps :: "json \<Rightarrow> string" where
  "json_dumps JNull = ''null''"
| "json_dumps (JBool b) = (if b then ''true'' else ''false'')"
| "json_dumps (JInt i) = str_int i"
| "json_dumps (JStr s) = [CHR 0x22] @ concat (map json_escape_char s) @ [CHR 0x22]"

section \<open>The world outside the module\<close>

text \<open>
  The state the module shares with its surroundings: the files it writes and deletes, and
  the Java options that \<^verbatim>\<open>nltk.internals\<close> keeps for the next launch.
\<close>

record world =
  files :: "string \<rightharpoonup> bytes"
  runtime_options :: string

text \<open>
  A command-line element. The fields the command is built from may hold Python's
  \<^verbatim>\<open>None\<close>, and the source puts them into the list as they are.
\<close>

type_synonym arg = "string option"

text \<open>
  The functions the module imports and calls but does not define are parameters:
  the environment, the artifact locator of \<^verbatim>\<open>nltk.internals\<close> (\<open>find_jar\<close>, \<open>find_file\<close>,
  \<open>find_dir\<close>), the list that the imported name \<^verbatim>\<open>_java_options\<close> is bound to, the launcher
  \<open>java\<close> (command, classpath; its result is the captured standard output and standard
  error, may depend on the files and the Java options, and is an exception when the
  launch fails), \<^verbatim>\<open>tempfile.mkstemp\<close> (the name it chooses) and the codecs. The launcher
  is taken to leave the files and the Java options as they are.
\<close>

record externals =
  os_environ :: "string \<Rightarrow> string option"
  find_jar :: "string \<Rightarrow> string option \<Rightarrow> string list \<Rightarrow> bool \<Rightarrow> error + string option"
  find_file :: "string \<Rightarrow> string list \<Rightarrow> string list \<Rightarrow> error + string"
  find_dir :: "string \<Rightarrow> string list \<Rightarrow> error + string"
  imported_java_options :: "string list"
  java :: "arg list \<Rightarrow> string \<Rightarrow> world \<Rightarrow> error + bytes \<times> bytes"
  mkstemp :: "world \<Rightarrow> error + string"
  encode :: "string \<Rightarrow> string \<Rightarrow> error + bytes"
  decode :: "bytes \<Rightarrow> string \<Rightarrow> error + string"

text \<open>
  Modelled from the spec: \<^verbatim>\<open>config_java\<close> of \<^verbatim>\<open>nltk/internals.py\<close> is not among the sources.
  The spec says that the runner applies the runtime options as process-runtime
  configuration before launching and restores the default afterwards; \<open>config_java\<close>
  installs the given option string as that configuration.
\<close>

definition config_java :: "string \<Rightarrow> world \<Rightarrow> world" where
  "config_java opts w = w\<lparr>runtime_options := opts\<rparr>"

text \<open>\<^verbatim>\<open>os.unlink(path)\<close>: the file is removed; a missing file is an \<^verbatim>\<open>OSError\<close>.\<close>

definition os_unlink :: "string \<Rightarrow> world \<Rightarrow> error + world" where
  "os_unlink path w =
     (if path \<in> dom (files w) then Inr (w\<lparr>files := (files w)(path := None)\<rparr>)
      else Inl (OSError ''No such file or directory''))"

section \<open>The class StanfordSegmenter\<close>

record StanfordSegmenter =
  self_stanford_jar :: string
  self_java_class :: "string option"
  self_model :: "string option"
  self_sihan_corpora_dict :: "string option"
  self_sihan_post_processing :: string
  self_keep_whitespaces :: string
  self_dict :: "string option"
  self_encoding :: string
  self_java_options :: string
  self_options_cmd :: string
  self_input_file_path :: "string option"

text \<open>The arguments of \<^verbatim>\<open>__init__\<close>, and their defaults.\<close>

record init_args =
  path_to_jar :: "string option"
  path_to_slf4j :: "string option"
  java_class :: "string option"
  path_to_model :: "string option"
  path_to_dict :: "string option"
  path_to_sihan_corpora_dict :: "string option"
  sihan_post_processing :: string
  keep_whitespaces :: string
  encoding :: string
  options :: "(string \<times> json) list option"
  verbose :: bool
  java_options :: string

definition default_args :: init_args where
  "default_args =
     \<lparr>path_to_jar = None, path_to_slf4j = None, java_class = None, path_to_model = None,
      path_to_dict = None, path_to_sihan_corpora_dict = None,
      sihan_post_processing = ''false'', keep_whitespaces = ''false'',
      encoding = ''UTF-8'', options = None, verbose = False, java_options = ''-mx2g''\<rparr>"

text \<open>
  \<^verbatim>\<open>','.join('{0}={1}'.format(key, json.dumps(val)) for key, val in options.items())\<close>:
  the dictionary is the list of its items in insertion order.
\<close>

definition options_cmd :: "(string \<times> json) list \<Rightarrow> string" where
  "options_cmd opts = py_join '','' (map (\<lambda>(key, val). key @ ''='' @ json_dumps val) opts)"

definition init :: "externals \<Rightarrow> init_args \<Rightarrow> error + StanfordSegmenter" where
  "init ext a =
     (case find_jar ext ''stanford-segmenter.jar'' (path_to_jar a)
             [''STANFORD_SEGMENTER''] (verbose a) of
        Inl e \<Rightarrow> Inl e
      | Inr stanford_segmenter \<Rightarrow>
     (case find_jar ext ''slf4j-api.jar'' (path_to_slf4j a)
             [''SLF4J'', ''STANFORD_SEGMENTER''] (verbose a) of
        Inl e \<Rightarrow> Inl e
      | Inr slf4j \<Rightarrow>
          Inr \<lparr>self_stanford_jar =
                 py_join os_pathsep (List.map_filter (\<lambda>x. x) [stanford_segmenter, slf4j]),
               self_java_class = java_class a,
               self_model = path_to_model a,
               self_sihan_corpora_dict = path_to_sihan_corpora_dict a,
               self_sihan_post_processing = sihan_post_processing a,
               self_keep_whitespaces = keep_whitespaces a,
               self_dict = path_to_dict a,
               self_encoding = encoding a,
               self_java_options = java_options a,
               self_options_cmd = options_cmd (case options a of None \<Rightarrow> [] | Some opts \<Rightarrow> opts),
               self_input_file_path = None\<rparr>))"

text \<open>
  \<^verbatim>\<open>default_config\<close> mutates the object and may raise after some of the assignments:
  the result is the exception, if any, and the object as the call leaves it.
\<close>

definition search_path :: "externals \<Rightarrow> string list" where
  "search_path ext =
     (case os_environ ext ''STANFORD_SEGMENTER'' of
        None \<Rightarrow> []
      | Some v \<Rightarrow> if v = [] then [] else [os_path_join v ''data''])"

definition default_config ::
  "externals \<Rightarrow> StanfordSegmenter \<Rightarrow> string \<Rightarrow> error option \<times> StanfordSegmenter" where
  "default_config ext self lang =
     (let search_path = search_path ext;
          self1 = self\<lparr>self_dict := None, self_sihan_corpora_dict := None,
                       self_sihan_post_processing := ''false''\<rparr>;
          branch =
            (if lang = ''ar'' then
               Inr (''arabic-segmenter-atb+bn+arztrain.ser.gz'',
                    self1\<lparr>self_java_class :=
                      Some ''edu.stanford.nlp.international.arabic.process.ArabicSegmenter''\<rparr>)
             else if lang = ''zh'' then
               (let self2 = self1\<lparr>self_java_class := Some ''edu.stanford.nlp.ie.crf.CRFClassifier'',
                                  self_sihan_post_processing := ''true''\<rparr>;
                    path_to_dict = ''dict-chris6.ser.gz''
                in case find_file ext path_to_dict search_path [''STANFORD_MODELS''] of
                     Inl e \<Rightarrow>
                       Inl (if is_LookupError e
                            then raise_LookupError
                              (''Could not find '%s' (tried using env. '' @
                               ''variables STANFORD_MODELS and <STANFORD_SEGMENTER>/data/)'')
                              path_to_dict
                            else e, self2)
                   | Inr d \<Rightarrow>
                       (let self3 = self2\<lparr>self_dict := Some d\<rparr>;
                            sihan_dir = ''./data/''
                        in case find_dir ext sihan_dir [''STANFORD_SEGMENTER''] of
                             Inl e \<Rightarrow>
                               Inl (if is_LookupError e
                                    then raise_LookupError
                                      (''Could not find '%s' (tried using the '' @
                                       ''STANFORD_SEGMENTER environment variable)'')
                                      sihan_dir
                                    else e, self3)
                           | Inr path_to_sihan_dir \<Rightarrow>
                               Inr (''pku.gz'',
                                    self3\<lparr>self_sihan_corpora_dict :=
                                      Some (os_path_join path_to_sihan_dir sihan_dir)\<rparr>)))
             else Inl (raise_LookupError (''Unsupported language '%'' @ [CHR 0x27]) lang, self1))
      in case branch of
           Inl (e, self') \<Rightarrow> (Some e, self')
         | Inr (model, self') \<Rightarrow>
             (case find_file ext model search_path [''STANFORD_MODELS'', ''STANFORD_SEGMENTER''] of
                Inl e \<Rightarrow>
                  (Some (if is_LookupError e
                         then raise_LookupError
                           (''Could not find '%s' (tried using env. '' @
                            ''variables STANFORD_MODELS and <STANFORD_SEGMENTER>/data/)'')
                           model
                         else e), self')
              | Inr p \<Rightarrow> (None, self'\<lparr>self_model := Some p\<rparr>)))"

text \<open>
  The command list that \<^verbatim>\<open>segment_file\<close> builds before it calls \<^verbatim>\<open>_execute\<close>.
\<close>

definition segment_file_cmd :: "StanfordSegmenter \<Rightarrow> string \<Rightarrow> arg list" where
  "segment_file_cmd self input_file_path =
     (let cmd = [self_java_class self,
                 Some ''-loadClassifier'', self_model self,
                 Some ''-keepAllWhitespaces'', Some (self_keep_whitespaces self),
                 Some ''-textFile'', Some input_file_path]
      in if self_sihan_corpora_dict self \<noteq> None
         then cmd @ [Some ''-serDictionary'', self_dict self,
                     Some ''-sighanCorporaDict'', self_sihan_corpora_dict self,
                     Some ''-sighanPostProcessing'', Some (self_sihan_post_processing self)]
         else cmd)"

text \<open>
  The command list that \<^verbatim>\<open>segment_sents\<close> builds: the same code, with the path of the
  temporary file that the object holds.
\<close>

definition segment_sents_cmd :: "StanfordSegmenter \<Rightarrow> arg list" where
  "segment_sents_cmd self =
     (let cmd = [self_java_class self,
                 Some ''-loadClassifier'', self_model self,
                 Some ''-keepAllWhitespaces'', Some (self_keep_whitespaces self),
                 Some ''-textFile'', self_input_file_path self]
      in if self_sihan_corpora_dict self \<noteq> None
         then cmd @ [Some ''-serDictionary'', self_dict self,
                     Some ''-sighanCorporaDict'', self_sihan_corpora_dict self,
                     Some ''-sighanPostProcessing'', Some (self_sihan_post_processing self)]
         else cmd)"

text \<open>
  \<^verbatim>\<open>_execute\<close> first extends the command it is given (\<open>execute_cmd\<close>), then sets the Java
  options, launches, decodes and sets the Java options back. An exception of the launch or
  of the decoding leaves the function at once.
\<close>

definition execute_cmd :: "StanfordSegmenter \<Rightarrow> arg list \<Rightarrow> arg list" where
  "execute_cmd self cmd =
     (let cmd1 = cmd @ [Some ''-inputEncoding'', Some (self_encoding self)]
      in if self_options_cmd self \<noteq> []
         then cmd1 @ [Some ''-options'', Some (self_options_cmd self)]
         else cmd1)"

definition execute ::
  "externals \<Rightarrow> StanfordSegmenter \<Rightarrow> arg list \<Rightarrow> world \<Rightarrow> (error + string) \<times> world" where
  "execute ext self cmd w =
     (let encoding = self_encoding self;
          cmd' = execute_cmd self cmd;
          default_options = py_join '' '' (imported_java_options ext);
          w1 = config_java (self_java_options self) w
      in case java ext cmd' (self_stanford_jar self) w1 of
           Inl e \<Rightarrow> (Inl e, w1)
         | Inr (stdout, stderr) \<Rightarrow>
             (case decode ext stdout encoding of
                Inl e \<Rightarrow> (Inl e, w1)
              | Inr text \<Rightarrow> (Inr text, config_java default_options w1)))"

definition segment_file ::
  "externals \<Rightarrow> StanfordSegmenter \<Rightarrow> string \<Rightarrow> world \<Rightarrow> (error + string) \<times> world" where
  "segment_file ext self input_file_path w =
     execute ext self (segment_file_cmd self input_file_path) w"

text \<open>
  \<^verbatim>\<open>segment_sents\<close> stores the path of the temporary file in the object, so the object is
  part of the result. \<open>stage_input\<close> is its first part, up to the closing of the temporary
  file: the file is created empty, the sentences are joined, encoded and written. With an
  empty encoding name the text is not encoded, and writing text to a file opened in binary
  mode is a \<^verbatim>\<open>TypeError\<close>. The result is the exception, if any, the object and the world.
\<close>

definition stage_input ::
  "externals \<Rightarrow> StanfordSegmenter \<Rightarrow> string list list \<Rightarrow> world
     \<Rightarrow> error option \<times> StanfordSegmenter \<times> world" where
  "stage_input ext self sentences w =
     (let encoding = self_encoding self
      in case mkstemp ext w of
           Inl e \<Rightarrow> (Some e, self, w)
         | Inr path \<Rightarrow>
             (let self1 = self\<lparr>self_input_file_path := Some path\<rparr>;
                  w1 = w\<lparr>files := (files w)(path \<mapsto> [])\<rparr>;
                  input = py_join [CHR 0x0A] (map (py_join '' '') sentences)
              in if encoding = []
                 then (Some (TypeError (''a bytes-like object is required, not 'str'' @ [CHR 0x27])),
                       self1, w1)
                 else case encode ext input encoding of
                        Inl e \<Rightarrow> (Some e, self1, w1)
                      | Inr data \<Rightarrow> (None, self1, w1\<lparr>files := (files w1)(path \<mapsto> data)\<rparr>)))"

text \<open>
  The rest of \<^verbatim>\<open>segment_sents\<close>: the command, \<^verbatim>\<open>_execute\<close>, and then the deletion of the
  temporary file. \<^verbatim>\<open>os.unlink(None)\<close> is a \<^verbatim>\<open>TypeError\<close>.
\<close>

definition segment_sents ::
  "externals \<Rightarrow> StanfordSegmenter \<Rightarrow> string list list \<Rightarrow> world
     \<Rightarrow> (error + string) \<times> StanfordSegmenter \<times> world" where
  "segment_sents ext self sentences w =
     (case stage_input ext self sentences w of
        (Some e, self1, w1) \<Rightarrow> (Inl e, self1, w1)
      | (None, self1, w2) \<Rightarrow>
          (case execute ext self1 (segment_sents_cmd self1) w2 of
             (Inl e, w3) \<Rightarrow> (Inl e, self1, w3)
           | (Inr stdout, w3) \<Rightarrow>
               (case self_input_file_path self1 of
                  None \<Rightarrow> (Inl (TypeError ''unlink: path should be string, bytes or os.PathLike, not NoneType''),
                           self1, w3)
                | Some path \<Rightarrow>
                    (case os_unlink path w3 of
                       Inl e \<Rightarrow> (Inl e, self1, w3)
                     | Inr w4 \<Rightarrow> (Inr stdout, self1, w4)))))"

definition segment ::
  "externals \<Rightarrow> StanfordSegmenter \<Rightarrow> string list \<Rightarrow> world
     \<Rightarrow> (error + string) \<times> StanfordSegmenter \<times> world" where
  "segment ext self tokens w = segment_sents ext self [tokens] w"

section \<open>Reading a command line\<close>





section \<open>Concrete surroundings for the examples\<close>

text \<open>
  An installation in which every artifact is found under \<^verbatim>\<open>/opt/segmenter\<close> and the Java
  program prints nothing; the same installation without the corpora directory; and the
  same installation with a launch that fails.
\<close>

definition ext_found :: externals where
  "ext_found =
     \<lparr>os_environ = (\<lambda>name. if name = ''STANFORD_SEGMENTER'' then Some ''/opt/segmenter'' else None),
      find_jar = (\<lambda>name path env_vars verbose. Inr (Some (''/opt/segmenter/'' @ name))),
      find_file = (\<lambda>name searchpath env_vars. Inr (''/opt/segmenter/data/'' @ name)),
      find_dir = (\<lambda>name env_vars. Inr ''/opt/segmenter''),
      imported_java_options = [],
      java = (\<lambda>cmd classpath w. Inr ([], [])),
      mkstemp = (\<lambda>w. Inr ''/tmp/tmpq3x''),
      encode = (\<lambda>text enc. Inr (map of_char text)),
      decode = (\<lambda>data enc. Inr (map (\<lambda>b. char_of (unat b)) data))\<rparr>"

definition ext_no_dir :: externals where
  "ext_no_dir = ext_found\<lparr>find_dir := (\<lambda>name env_vars. Inl (LookupError ''no such directory''))\<rparr>"

definition ext_java_fails :: externals where
  "ext_java_fails = ext_found\<lparr>java := (\<lambda>cmd classpath w. Inl (OSError ''Java command failed''))\<rparr>"

definition segmenter0 :: StanfordSegmenter where
  "segmenter0 =
     \<lparr>self_stanford_jar = ''/opt/segmenter/stanford-segmenter.jar:/opt/segmenter/slf4j-api.jar'',
      self_java_class = None, self_model = None, self_sihan_corpora_dict = None,
      self_sihan_post_processing = ''false'', self_keep_whitespaces = ''false'',
      self_dict = None, self_encoding = ''UTF-8'', self_java_options = ''-mx2g'',
      self_options_cmd = [], self_input_file_path = None\<rparr>"

definition world0 :: world where
  "world0 = \<lparr>files = Map.empty, runtime_options = []\<rparr>"


section \<open>Auxiliary facts\<close>

lemma py_join_terminated:
  "py_join [c] xs = butlast (concat (map (\<lambda>x. x @ [c]) xs))"
proof (induction "[c]" xs rule: py_join.induct)
  case 1
  show ?case by simp
next
  case (2 x)
  show ?case by simp
next
  case (3 x y ys)
  then show ?case by (simp add: butlast_append)
qed



lemma unsupported_language_error:
  "raise_LookupError (''Unsupported language '%'' @ [CHR 0x27]) lang =
     ValueError (''unsupported format character '' @ [CHR 0x27, CHR 0x27, CHR 0x27]
       @ '' (0x27) at index 23'')"
  by (simp add: raise_LookupError_def py_format_def emit_def conversion_syntax_def
      unsupported_format_character_def hex_nat.simps str_nat.simps digit_char_def)







text \<open>
  On the path without an exception both clean-up steps are reached: \<^verbatim>\<open>_execute\<close> sets the
  Java options back to the default, and \<^verbatim>\<open>segment_sents\<close> deletes the temporary file.
\<close>

lemma execute_success_restores:
  "execute ext self cmd w = (Inr out, w') \<Longrightarrow>
   runtime_options w' = py_join '' '' (imported_java_options ext)"
  by (auto simp: execute_def Let_def config_java_def split: sum.splits prod.splits)

lemma segment_sents_success_deletes:
  "segment_sents ext self sentences w = (Inr out, self', w') \<Longrightarrow>
   \<exists>path. self_input_file_path self' = Some path \<and> files w' path = None"
  by (auto simp: segment_sents_def os_unlink_def
      split: sum.splits prod.splits option.splits if_splits)

section \<open>The claims\<close>

text \<open>
  C1. The claim: after every \<^verbatim>\<open>segment_sents\<close> call the temporary input file is gone,
  also when the child process signals an error. The code deletes the file only after
  \<^verbatim>\<open>_execute\<close> has returned. With a launch that fails, the call ends with the launcher's
  exception, and the file that did not exist before the call is still there afterwards,
  holding the staged sentences.
\<close>

theorem segment_sents_failure_keeps_temp_file:
  "fst (segment_sents ext_java_fails segmenter0 [[''a'', ''b''], [''c'']] world0)
     = Inl (OSError ''Java command failed'') \<and>
   files world0 ''/tmp/tmpq3x'' = None \<and>
   files (snd (snd (segment_sents ext_java_fails segmenter0 [[''a'', ''b''], [''c'']] world0)))
     ''/tmp/tmpq3x''
     = Some (map of_char [CHR ''a'', CHR '' '', CHR ''b'', CHR 0x0A, CHR ''c''])"
  by (simp add: segment_sents_def stage_input_def execute_def Let_def config_java_def
      ext_java_fails_def ext_found_def segmenter0_def world0_def)

text \<open>
  C2. The claim: for a language tag other than \<^verbatim>\<open>ar\<close> and \<^verbatim>\<open>zh\<close>, \<^verbatim>\<open>default_config\<close> fails with
  a \<^verbatim>\<open>LookupError\<close> whose message names the tag. The format string of that branch is
  \<^verbatim>\<open>"Unsupported language '%'"\<close>, without the \<^verbatim>\<open>s\<close> of the other messages, so the formatting
  itself raises: for every such tag the exception is the same \<^verbatim>\<open>ValueError\<close>, which is no
  \<^verbatim>\<open>LookupError\<close> and does not mention the tag.
\<close>

theorem default_config_unsupported_language_raises_ValueError:
  "lang \<noteq> ''ar'' \<Longrightarrow> lang \<noteq> ''zh'' \<Longrightarrow>
   fst (default_config ext self lang) =
     Some (ValueError (''unsupported format character '' @ [CHR 0x27, CHR 0x27, CHR 0x27]
       @ '' (0x27) at index 23''))"
  using unsupported_language_error [of lang] unfolding default_config_def Let_def by simp

theorem default_config_fr_raises_ValueError:
  "fst (default_config ext_found segmenter0 ''fr'') =
     Some (ValueError (''unsupported format character '' @ [CHR 0x27, CHR 0x27, CHR 0x27]
       @ '' (0x27) at index 23''))"
  using default_config_unsupported_language_raises_ValueError [of "''fr''" ext_found segmenter0]
  by simp

text \<open>
  C3. The claim: \<^verbatim>\<open>default_config('ar')\<close> clears the dictionary path and the corpora
  directory and leaves the post-processing flag as it was. The code resets the flag to
  \<^verbatim>\<open>'false'\<close> together with the two paths, before it looks at the language: after a Chinese
  configuration the flag is \<^verbatim>\<open>'true'\<close>, and a following Arabic configuration makes it
  \<^verbatim>\<open>'false'\<close>. As amended: whatever the prior state, and whether or not the model is then
  found, \<^verbatim>\<open>default_config('ar')\<close> leaves both paths cleared and the flag \<^verbatim>\<open>'false'\<close>.
\<close>

theorem default_config_ar_resets_chinese_fields:
  "self_dict (snd (default_config ext self ''ar'')) = None \<and>
   self_sihan_corpora_dict (snd (default_config ext self ''ar'')) = None \<and>
   self_sihan_post_processing (snd (default_config ext self ''ar'')) = ''false''"
  unfolding default_config_def Let_def by (simp split: sum.splits)

text \<open>
  C3, the counterexample: after a Chinese configuration the flag is \<^verbatim>\<open>'true'\<close>, and the
  Arabic configuration that follows changes it to \<^verbatim>\<open>'false'\<close>.
\<close>

theorem default_config_ar_changes_post_processing:
  "self_sihan_post_processing (snd (default_config ext_found segmenter0 ''zh'')) = ''true'' \<and>
   self_sihan_post_processing
     (snd (default_config ext_found (snd (default_config ext_found segmenter0 ''zh'')) ''ar''))
     = ''false''"
  unfolding default_config_def Let_def
  by (simp add: ext_found_def search_path_def segmenter0_def)

text \<open>
  C4. The claim: the Java options are set before the launch and restored to the default
  afterwards whatever the outcome. The code restores them only after the launch and the
  decoding have succeeded. With a launch that fails, \<^verbatim>\<open>_execute\<close> ends with the launcher's
  exception and the options of the object, \<^verbatim>\<open>-mx2g\<close>, stay installed, while the default is
  the empty string.
\<close>

theorem execute_failure_keeps_java_options:
  "fst (execute ext_java_fails segmenter0 (segment_file_cmd segmenter0 ''in.txt'') world0)
     = Inl (OSError ''Java command failed'') \<and>
   runtime_options
     (snd (execute ext_java_fails segmenter0 (segment_file_cmd segmenter0 ''in.txt'') world0))
     = ''-mx2g'' \<and>
   py_join '' '' (imported_java_options ext_java_fails) = []"
  by (simp add: execute_def Let_def config_java_def
      ext_java_fails_def ext_found_def segmenter0_def world0_def)

text \<open>
  C5. The claim: in every reachable state, after construction and after any
  \<^verbatim>\<open>default_config\<close> call, the dictionary path and the corpora directory are both set or
  both absent. The constructor stores the two paths as the caller gives them, so an object
  constructed with a dictionary path only has one without the other; and a Chinese
  configuration that finds the dictionary but not the corpora directory raises after it
  has stored the dictionary path. As amended: after every \<^verbatim>\<open>default_config\<close> call, finished
  or failed, other than a Chinese one that finds the dictionary and then fails on the
  corpora directory, the two fields are both set or both absent.
\<close>

theorem default_config_pairs_dict_and_corpora:
  "\<not> (lang = ''zh'' \<and>
      \<not> isl (find_file ext ''dict-chris6.ser.gz'' (search_path ext) [''STANFORD_MODELS'']) \<and>
      isl (find_dir ext ''./data/'' [''STANFORD_SEGMENTER''])) \<Longrightarrow>
   (self_dict (snd (default_config ext self lang)) = None) =
   (self_sihan_corpora_dict (snd (default_config ext self lang)) = None)"
  unfolding default_config_def Let_def by (auto split: sum.splits)

theorem default_config_pairs_dict_and_corpora_witness:
  "\<not> isl (find_dir ext_found ''./data/'' [''STANFORD_SEGMENTER'']) \<and>
   self_dict (snd (default_config ext_found segmenter0 ''zh'')) \<noteq> None \<and>
   self_sihan_corpora_dict (snd (default_config ext_found segmenter0 ''zh'')) \<noteq> None"
proof -
  have h: "\<not> isl (find_dir ext_found ''./data/'' [''STANFORD_SEGMENTER''])"
    by (simp add: ext_found_def)
  have d: "self_dict (snd (default_config ext_found segmenter0 ''zh'')) \<noteq> None"
    unfolding default_config_def Let_def
    by (simp add: ext_found_def search_path_def segmenter0_def)
  from h have "(self_dict (snd (default_config ext_found segmenter0 ''zh'')) = None) =
      (self_sihan_corpora_dict (snd (default_config ext_found segmenter0 ''zh'')) = None)"
    by (intro default_config_pairs_dict_and_corpora) simp
  with h d show ?thesis by simp
qed

text \<open>
  C5, the counterexample: an object constructed with a dictionary path and no corpora
  directory, and the object that a Chinese configuration leaves behind in an installation
  without the corpora directory, both hold a dictionary path and no corpora directory.
\<close>

theorem dict_without_corpora_dir_reachable:
  "map_sum id (\<lambda>s. (self_dict s, self_sihan_corpora_dict s))
     (init ext_found (default_args\<lparr>path_to_dict := Some ''./data/dict-chris6.ser.gz''\<rparr>))
     = Inr (Some ''./data/dict-chris6.ser.gz'', None) \<and>
   self_dict (snd (default_config ext_no_dir segmenter0 ''zh''))
     = Some ''/opt/segmenter/data/dict-chris6.ser.gz'' \<and>
   self_sihan_corpora_dict (snd (default_config ext_no_dir segmenter0 ''zh'')) = None"
  unfolding default_config_def Let_def
  by (simp add: init_def default_args_def ext_no_dir_def ext_found_def search_path_def
      segmenter0_def)

text \<open>
  C6. If \<^verbatim>\<open>default_config('zh')\<close> returns without raising, the post-processing flag is
  \<^verbatim>\<open>'true'\<close>, the dictionary path is the file that the locator found and the corpora
  directory is built from the directory that the locator found; and when the locator fails
  on the dictionary file or on the corpora directory, the call raises.
\<close>

theorem default_config_zh_populates:
  "(fst (default_config ext self ''zh'') = None \<longrightarrow>
      self_sihan_post_processing (snd (default_config ext self ''zh'')) = ''true'' \<and>
      (\<exists>d. find_file ext ''dict-chris6.ser.gz'' (search_path ext) [''STANFORD_MODELS''] = Inr d \<and>
           self_dict (snd (default_config ext self ''zh'')) = Some d) \<and>
      (\<exists>p. find_dir ext ''./data/'' [''STANFORD_SEGMENTER''] = Inr p \<and>
           self_sihan_corpora_dict (snd (default_config ext self ''zh''))
             = Some (os_path_join p ''./data/''))) \<and>
   (isl (find_file ext ''dict-chris6.ser.gz'' (search_path ext) [''STANFORD_MODELS'']) \<or>
    isl (find_dir ext ''./data/'' [''STANFORD_SEGMENTER'']) \<longrightarrow>
      fst (default_config ext self ''zh'') \<noteq> None)"
  unfolding default_config_def Let_def by (simp split: sum.splits)

theorem default_config_zh_populates_witness:
  "fst (default_config ext_found segmenter0 ''zh'') = None \<and>
   self_sihan_post_processing (snd (default_config ext_found segmenter0 ''zh'')) = ''true'' \<and>
   self_dict (snd (default_config ext_found segmenter0 ''zh''))
     = Some ''/opt/segmenter/data/dict-chris6.ser.gz'' \<and>
   self_sihan_corpora_dict (snd (default_config ext_found segmenter0 ''zh''))
     = Some ''/opt/segmenter/./data/'' \<and>
   isl (find_dir ext_no_dir ''./data/'' [''STANFORD_SEGMENTER'']) \<and>
   fst (default_config ext_no_dir segmenter0 ''zh'') \<noteq> None"
proof -
  have ok: "fst (default_config ext_found segmenter0 ''zh'') = None"
    unfolding default_config_def Let_def
    by (simp add: ext_found_def search_path_def segmenter0_def)
  have f: "find_file ext_found ''dict-chris6.ser.gz'' (search_path ext_found) [''STANFORD_MODELS'']
      = Inr ''/opt/segmenter/data/dict-chris6.ser.gz''"
    by (simp add: ext_found_def)
  have g: "find_dir ext_found ''./data/'' [''STANFORD_SEGMENTER''] = Inr ''/opt/segmenter''"
    by (simp add: ext_found_def)
  have j: "os_path_join ''/opt/segmenter'' ''./data/'' = ''/opt/segmenter/./data/''"
    by (simp add: os_path_join_def)
  have bad: "isl (find_dir ext_no_dir ''./data/'' [''STANFORD_SEGMENTER''])"
    by (simp add: ext_no_dir_def)
  from ok f g j bad
    default_config_zh_populates [of ext_found segmenter0]
    default_config_zh_populates [of ext_no_dir segmenter0]
  show ?thesis by auto
qed

text \<open>
  C7. Input staging writes the sentences joined as the claim says: the tokens of a
  sentence with a single space, the sentences with a single newline, encoded with the
  encoding of the object. When the temporary file can be created and the text can be
  encoded, the staging ends without an exception, the object holds the path, and the file
  holds the encoded text. The joined text is the lines, each followed by a newline, without
  the last newline. For \<^verbatim>\<open>[["a","b"],["c"]]\<close> the text is \<^verbatim>\<open>a b\<close>, a newline and \<^verbatim>\<open>c\<close>.
\<close>

theorem stage_input_writes_joined_text:
  "mkstemp ext w = Inr path \<Longrightarrow> self_encoding self \<noteq> [] \<Longrightarrow>
   encode ext (py_join [CHR 0x0A] (map (py_join '' '') sentences)) (self_encoding self)
     = Inr data \<Longrightarrow>
   stage_input ext self sentences w =
     (None, self\<lparr>self_input_file_path := Some path\<rparr>,
      w\<lparr>files := (files w)(path \<mapsto> data)\<rparr>) \<and>
   py_join [CHR 0x0A] (map (py_join '' '') sentences) =
     butlast (concat (map (\<lambda>sentence. py_join '' '' sentence @ [CHR 0x0A]) sentences))"
  using py_join_terminated [of "CHR 0x0A" "map (py_join '' '') sentences"]
  by (simp add: stage_input_def Let_def comp_def)

theorem stage_input_two_sentences:
  "py_join [CHR 0x0A] (map (py_join '' '') [[''a'', ''b''], [''c'']])
     = [CHR ''a'', CHR '' '', CHR ''b'', CHR 0x0A, CHR ''c''] \<and>
   stage_input ext_found segmenter0 [[''a'', ''b''], [''c'']] world0 =
     (None, segmenter0\<lparr>self_input_file_path := Some ''/tmp/tmpq3x''\<rparr>,
      world0\<lparr>files := (files world0)(''/tmp/tmpq3x'' \<mapsto>
        map of_char [CHR ''a'', CHR '' '', CHR ''b'', CHR 0x0A, CHR ''c''])\<rparr>)"
  using stage_input_writes_joined_text [of ext_found world0 "''/tmp/tmpq3x''" segmenter0
      "[[''a'', ''b''], [''c'']]"
      "map of_char [CHR ''a'', CHR '' '', CHR ''b'', CHR 0x0A, CHR ''c'']"]
  by (simp add: ext_found_def segmenter0_def)






text \<open>
  C10. \<^verbatim>\<open>segment(tokens)\<close> is \<^verbatim>\<open>segment_sents([tokens])\<close>: the same result, the same object
  and the same effects on the world.
\<close>

theorem segment_is_segment_sents_singleton:
  "segment ext self tokens w = segment_sents ext self [tokens] w"
  by (simp add: segment_def)

end
